theory Spec2Isabelle
  imports Main "HOL-Library.Monad_Syntax"
begin

section \<open>The header \<^verbatim>\<open>singleton-crtp.h\<close>\<close>

text \<open>
  The header holds a trait \<^verbatim>\<open>has_MainCtor\<close>, two overloads of
  \<^verbatim>\<open>CheckIsMainCtorCalled\<close> and the class template \<^verbatim>\<open>SingletonCRTP<T>\<close> with one
  static pointer \<^verbatim>\<open>instance\<close>. The embedding fixes one template argument \<open>T\<close>, a class
  that derives from \<^verbatim>\<open>SingletonCRTP<T>\<close> ("This class should be inherited publicly"), and
  describes it by what the templates look at: the declared type of its member
  \<^verbatim>\<open>IsMainCtorCalled\<close>, and its constructors.

  \<^item> Pointers are \<open>addr option\<close>, \<open>None\<close> being \<^verbatim>\<open>nullptr\<close>.
  \<^item> The free store is a map from addresses to objects; \<^verbatim>\<open>new\<close> takes the next unused
    address, so a new object never has the address of an earlier one.
  \<^item> \<^verbatim>\<open>assert\<close> is the macro of a build without \<^verbatim>\<open>NDEBUG\<close>: a false condition ends the
    run with \<open>AssertionFailed\<close>.
  \<^item> Dereferencing a null or dangling pointer has no defined behaviour in C++; it is the
    error \<open>UndefinedBehaviour\<close>, kept apart from a failed assertion.
  \<^item> The field \<^verbatim>\<open>instance\<close> is named \<open>instance_ptr\<close>, \<open>instance\<close> being a keyword.
\<close>

subsection \<open>Types and classes\<close>

text \<open>The fragment of the C++ types that a data member \<^verbatim>\<open>IsMainCtorCalled\<close> is declared with.\<close>

datatype ctype = CBool | CInt | CConst ctype | CRef ctype | CClass string

type_synonym addr = nat

text \<open>
  An object of \<open>T\<close>: the value of its member \<^verbatim>\<open>IsMainCtorCalled\<close> read as a \<^verbatim>\<open>bool\<close>
  (it means something only when the class declares the member), and its other members.
\<close>

record 'f object =
  IsMainCtorCalled :: bool
  members :: 'f

text \<open>
  A class \<open>T\<close>: \<open>flag_decl\<close> is the declared type of the accessible data member named
  \<^verbatim>\<open>IsMainCtorCalled\<close> that member lookup finds in \<open>T\<close> (its own or an inherited one), and
  \<open>None\<close> when the expression \<^verbatim>\<open>std::declval<T>().IsMainCtorCalled\<close> is ill-formed.
  \<open>ctor\<close> gives the member values that the constructor of \<open>T\<close> selected by the arguments
  leaves behind.
\<close>

record ('a, 'f) class_decl =
  flag_decl :: "ctype option"
  ctor :: "'a \<Rightarrow> 'f object"

text \<open>\<^verbatim>\<open>struct IMainCtor { bool IsMainCtorCalled{false}; };\<close>\<close>

definition IMainCtor :: "(unit, unit) class_decl" where
  "IMainCtor = \<lparr>flag_decl = Some CBool,
                ctor = (\<lambda>_. \<lparr>IsMainCtorCalled = False, members = ()\<rparr>)\<rparr>"

subsection \<open>The trait \<^verbatim>\<open>has_MainCtor\<close>\<close>

text \<open>
  \<^verbatim>\<open>has_MainCtor<T, U>\<close>: the partial specialisation
  \<^verbatim>\<open>has_MainCtor<T, decltype(std::declval<T>().IsMainCtorCalled)>\<close> is chosen when the
  \<^verbatim>\<open>decltype\<close> is well-formed and is the type \<open>U\<close>, and inherits \<^verbatim>\<open>std::true_type\<close>; a
  substitution failure or another type leaves the primary template, which inherits
  \<^verbatim>\<open>std::false_type\<close>. \<^verbatim>\<open>decltype\<close> of a member access that is not parenthesised is the
  declared type of the member.
\<close>

datatype template_choice = Primary | Specialization

definition has_MainCtor_select :: "('a, 'f) class_decl \<Rightarrow> ctype \<Rightarrow> template_choice" where
  "has_MainCtor_select T U =
     (case flag_decl T of
        None \<Rightarrow> Primary
      | Some ty \<Rightarrow> if ty = U then Specialization else Primary)"

definition has_MainCtor2 :: "('a, 'f) class_decl \<Rightarrow> ctype \<Rightarrow> bool" where
  "has_MainCtor2 T U =
     (case has_MainCtor_select T U of Primary \<Rightarrow> False | Specialization \<Rightarrow> True)"

text \<open>
  The default of the second template parameter,
  \<^verbatim>\<open>decltype(std::declval<IMainCtor>().IsMainCtorCalled)\<close>.
\<close>

definition has_MainCtor_default :: "ctype option" where
  "has_MainCtor_default = flag_decl IMainCtor"

text \<open>\<^verbatim>\<open>has_MainCtor<T>::value\<close>.\<close>

definition has_MainCtor :: "('a, 'f) class_decl \<Rightarrow> bool" where
  "has_MainCtor T =
     (case has_MainCtor_default of None \<Rightarrow> False | Some U \<Rightarrow> has_MainCtor2 T U)"

subsection \<open>\<^verbatim>\<open>CheckIsMainCtorCalled\<close>\<close>

datatype error = AssertionFailed | UndefinedBehaviour

text \<open>The template overload, \<^verbatim>\<open>return t->IsMainCtorCalled;\<close>, reads the object behind \<open>t\<close>.\<close>

definition CheckIsMainCtorCalled_template ::
  "(addr \<rightharpoonup> 'f object) \<Rightarrow> addr option \<Rightarrow> error + bool" where
  "CheckIsMainCtorCalled_template h t =
     (case t of
        None \<Rightarrow> Inl UndefinedBehaviour
      | Some p \<Rightarrow> (case h p of
                    None \<Rightarrow> Inl UndefinedBehaviour
                  | Some ob \<Rightarrow> Inr (IsMainCtorCalled ob)))"

text \<open>The overload \<^verbatim>\<open>CheckIsMainCtorCalled(...)\<close>, \<^verbatim>\<open>return true;\<close>.\<close>

definition CheckIsMainCtorCalled_ellipsis :: bool where
  "CheckIsMainCtorCalled_ellipsis = True"

text \<open>
  A call \<^verbatim>\<open>CheckIsMainCtorCalled(t)\<close> with \<open>t\<close> of type \<^verbatim>\<open>T*\<close>: \<^verbatim>\<open>std::enable_if\<close> removes
  the template overload unless \<^verbatim>\<open>has_MainCtor<T>::value\<close>; when it stays it is the better
  match, an ellipsis conversion being the worst one.
\<close>

definition CheckIsMainCtorCalled ::
  "('a, 'f) class_decl \<Rightarrow> (addr \<rightharpoonup> 'f object) \<Rightarrow> addr option \<Rightarrow> error + bool" where
  "CheckIsMainCtorCalled T h t =
     (if has_MainCtor T then CheckIsMainCtorCalled_template h t
      else Inr CheckIsMainCtorCalled_ellipsis)"

subsection \<open>\<^verbatim>\<open>SingletonCRTP<T>\<close>\<close>

text \<open>
  The free store, the allocator's next address, and the static member
  \<^verbatim>\<open>SingletonCRTP<T>::instance\<close>.
\<close>

record 'f state =
  heap :: "addr \<rightharpoonup> 'f object"
  next_addr :: addr
  instance_ptr :: "addr option"

text \<open>
  \<^verbatim>\<open>typename SingletonCRTP<T>::Type* SingletonCRTP<T>::instance = nullptr;\<close> and an empty
  free store: the state in which the program starts.
\<close>

definition init :: "'f state" where
  "init = \<lparr>heap = Map.empty, next_addr = 0, instance_ptr = None\<rparr>"

text \<open>The protected constructor: \<^verbatim>\<open>instance = static_cast<Type*>(this);\<close>\<close>

definition SingletonCRTP_ctor :: "addr \<Rightarrow> 'f state \<Rightarrow> 'f state" where
  "SingletonCRTP_ctor this s = s\<lparr>instance_ptr := Some this\<rparr>"

text \<open>
  \<^verbatim>\<open>new Type(args...)\<close>, which is also what a construction outside
  \<^verbatim>\<open>CreateSingleton\<close> does: storage is obtained, the base class constructor
  runs, then the constructor of \<open>T\<close> initialises the members. The result is the address of
  the new object.
\<close>

definition new_Type :: "('a, 'f) class_decl \<Rightarrow> 'a \<Rightarrow> 'f state \<Rightarrow> addr \<times> 'f state" where
  "new_Type T args s =
     (let p = next_addr s;
          s1 = SingletonCRTP_ctor p (s\<lparr>next_addr := Suc p\<rparr>);
          s2 = s1\<lparr>heap := (heap s1)(p \<mapsto> ctor T args)\<rparr>
      in (p, s2))"

text \<open>The statement \<^verbatim>\<open>if(!instance) { instance = new Type(std::forward<Args>(args)...); }\<close>\<close>

definition create_if_absent :: "('a, 'f) class_decl \<Rightarrow> 'a \<Rightarrow> 'f state \<Rightarrow> 'f state" where
  "create_if_absent T args s =
     (if instance_ptr s = None
      then (case new_Type T args s of (p, s') \<Rightarrow> s'\<lparr>instance_ptr := Some p\<rparr>)
      else s)"

text \<open>
  \<^verbatim>\<open>CreateSingleton\<close>: the statement above, then
  \<^verbatim>\<open>assert(CheckIsMainCtorCalled(instance));\<close> and \<^verbatim>\<open>return *instance;\<close>. The reference
  returned is the address of the object.
\<close>

definition CreateSingleton ::
  "('a, 'f) class_decl \<Rightarrow> 'a \<Rightarrow> 'f state \<Rightarrow> error + (addr \<times> 'f state)" where
  "CreateSingleton T args s =
     (let s1 = create_if_absent T args s in
      case CheckIsMainCtorCalled T (heap s1) (instance_ptr s1) of
        Inl e \<Rightarrow> Inl e
      | Inr ok \<Rightarrow>
          if \<not> ok then Inl AssertionFailed
          else (case instance_ptr s1 of
                  None \<Rightarrow> Inl UndefinedBehaviour
                | Some p \<Rightarrow> Inr (p, s1)))"

text \<open>\<^verbatim>\<open>GetInstance\<close>: \<^verbatim>\<open>assert((..., instance != nullptr)); return instance;\<close>\<close>

definition GetInstance :: "'f state \<Rightarrow> error + (addr option \<times> 'f state)" where
  "GetInstance s =
     (if instance_ptr s \<noteq> None then Inr (instance_ptr s, s) else Inl AssertionFailed)"

text \<open>
  \<^verbatim>\<open>operator*\<close>, \<^verbatim>\<open>return *instance;\<close>, in its two versions. Neither reads \<^verbatim>\<open>this\<close>, so
  the object the operator is called on is left out.
\<close>

definition op_star :: "'f state \<Rightarrow> error + addr" where
  "op_star s = (case instance_ptr s of None \<Rightarrow> Inl UndefinedBehaviour | Some p \<Rightarrow> Inr p)"

definition op_star_const :: "'f state \<Rightarrow> error + addr" where
  "op_star_const s = (case instance_ptr s of None \<Rightarrow> Inl UndefinedBehaviour | Some p \<Rightarrow> Inr p)"

text \<open>\<^verbatim>\<open>operator->\<close>, \<^verbatim>\<open>return &**this;\<close>: the address of what \<^verbatim>\<open>operator*\<close> gives.\<close>

definition op_arrow :: "'f state \<Rightarrow> error + addr option" where
  "op_arrow s = (case op_star s of Inl e \<Rightarrow> Inl e | Inr r \<Rightarrow> Inr (Some r))"

definition op_arrow_const :: "'f state \<Rightarrow> error + addr option" where
  "op_arrow_const s = (case op_star_const s of Inl e \<Rightarrow> Inl e | Inr r \<Rightarrow> Inr (Some r))"

text \<open>
  The destructor, \<^verbatim>\<open>delete instance; instance = nullptr;\<close>. A delete expression on a null
  pointer does nothing; on another pointer it runs the destructor of the object pointed
  to, which for \<open>T\<close> ends in this destructor again, and then frees the storage. The
  destructor may therefore not return, which is the value \<open>None\<close>.
\<close>

partial_function (option) SingletonCRTP_dtor :: "addr \<Rightarrow> 'f state \<Rightarrow> 'f state option" where
  "SingletonCRTP_dtor this s =
     (case instance_ptr s of
        None \<Rightarrow> Some (s\<lparr>instance_ptr := None\<rparr>)
      | Some p \<Rightarrow>
          SingletonCRTP_dtor p s \<bind>
            (\<lambda>s'. Some (s'\<lparr>heap := (heap s')(p := None), instance_ptr := None\<rparr>)))"

text \<open>
  The end of the lifetime of the object at \<open>this\<close> (a \<^verbatim>\<open>delete\<close> by the program): its
  destructor, then the release of its storage. An address that holds no object has none
  to destroy.
\<close>

definition destroy :: "addr \<Rightarrow> 'f state \<Rightarrow> (error + 'f state) option" where
  "destroy this s =
     (if this \<notin> dom (heap s) then Some (Inl UndefinedBehaviour)
      else SingletonCRTP_dtor this s \<bind>
             (\<lambda>s'. Some (Inr (s'\<lparr>heap := (heap s')(this := None)\<rparr>))))"

subsection \<open>Runs of a program that uses the class\<close>

text \<open>
  What a program can do with \<open>T\<close>: call the public members of \<^verbatim>\<open>SingletonCRTP<T>\<close>,
  construct an object of \<open>T\<close> itself, and end the lifetime of an object.
\<close>

datatype 'a operation =
    Create 'a
  | Get
  | Star
  | StarConst
  | Arrow
  | ArrowConst
  | Construct 'a
  | Destroy addr

fun step :: "('a, 'f) class_decl \<Rightarrow> 'a operation \<Rightarrow> 'f state \<Rightarrow> (error + 'f state) option" where
  "step T (Create args) s =
     Some (case CreateSingleton T args s of Inl e \<Rightarrow> Inl e | Inr (p, s') \<Rightarrow> Inr s')"
| "step T Get s = Some (case GetInstance s of Inl e \<Rightarrow> Inl e | Inr (p, s') \<Rightarrow> Inr s')"
| "step T Star s = Some (case op_star s of Inl e \<Rightarrow> Inl e | Inr r \<Rightarrow> Inr s)"
| "step T StarConst s = Some (case op_star_const s of Inl e \<Rightarrow> Inl e | Inr r \<Rightarrow> Inr s)"
| "step T Arrow s = Some (case op_arrow s of Inl e \<Rightarrow> Inl e | Inr r \<Rightarrow> Inr s)"
| "step T ArrowConst s = Some (case op_arrow_const s of Inl e \<Rightarrow> Inl e | Inr r \<Rightarrow> Inr s)"
| "step T (Construct args) s = Some (Inr (snd (new_Type T args s)))"
| "step T (Destroy p) s = destroy p s"

text \<open>
  A run stops at the first error (the process is gone) and has no result when an
  operation does not return.
\<close>

fun exec :: "('a, 'f) class_decl \<Rightarrow> 'a operation list \<Rightarrow> 'f state \<Rightarrow> (error + 'f state) option" where
  "exec T [] s = Some (Inr s)"
| "exec T (x # xs) s =
     (case step T x s of
        None \<Rightarrow> None
      | Some (Inl e) \<Rightarrow> Some (Inl e)
      | Some (Inr s') \<Rightarrow> exec T xs s')"

text \<open>The operations that are public members of \<^verbatim>\<open>SingletonCRTP<T>\<close>.\<close>

fun member_op :: "'a operation \<Rightarrow> bool" where
  "member_op (Construct args) = False"
| "member_op (Destroy p) = False"
| "member_op x = True"

fun is_Create :: "'a operation \<Rightarrow> bool" where
  "is_Create (Create args) = True"
| "is_Create x = False"

text \<open>The static pointer is null or points to an object that lives.\<close>

definition instance_live :: "'f state \<Rightarrow> bool" where
  "instance_live s = (case instance_ptr s of None \<Rightarrow> True | Some p \<Rightarrow> heap s p \<noteq> None)"

subsection \<open>Three classes\<close>

text \<open>
  \<^verbatim>\<open>struct WithMainCtor : IMainCtor, SingletonCRTP<WithMainCtor>\<close> with a member \<^verbatim>\<open>n\<close>:
  the constructor called with \<open>0\<close> leaves the flag as \<^verbatim>\<open>IMainCtor\<close> initialises it, the one
  called with another number is the main constructor and sets it.
\<close>

definition WithMainCtor :: "(nat, nat) class_decl" where
  "WithMainCtor = \<lparr>flag_decl = flag_decl IMainCtor,
                   ctor = (\<lambda>n. \<lparr>IsMainCtorCalled = (0 < n), members = n\<rparr>)\<rparr>"

text \<open>
  The same class with a member \<^verbatim>\<open>const bool IsMainCtorCalled\<close> of its own, set in the
  member initialiser lists, instead of the base \<^verbatim>\<open>IMainCtor\<close>.
\<close>

definition ConstFlag :: "(nat, nat) class_decl" where
  "ConstFlag = \<lparr>flag_decl = Some (CConst CBool),
                ctor = (\<lambda>n. \<lparr>IsMainCtorCalled = (0 < n), members = n\<rparr>)\<rparr>"

text \<open>A class with no member \<^verbatim>\<open>IsMainCtorCalled\<close>.\<close>

definition Plain :: "(nat, nat) class_decl" where
  "Plain = \<lparr>flag_decl = None,
            ctor = (\<lambda>n. \<lparr>IsMainCtorCalled = False, members = n\<rparr>)\<rparr>"

text \<open>
  Two invariants of the states that runs reach. The first holds along every run: the
  allocator is ahead of every object, and the static pointer is null exactly when no
  object lives and otherwise points to a living one. The second holds along runs of public
  members only: the object behind the static pointer is the only one.
\<close>

definition store_inv :: "'f state \<Rightarrow> bool" where
  "store_inv s \<longleftrightarrow>
     (\<forall>p \<in> dom (heap s). p < next_addr s) \<and>
     (case instance_ptr s of None \<Rightarrow> heap s = Map.empty | Some p \<Rightarrow> p \<in> dom (heap s))"

definition single_inv :: "'f state \<Rightarrow> bool" where
  "single_inv s =
     (case instance_ptr s of None \<Rightarrow> heap s = Map.empty | Some p \<Rightarrow> dom (heap s) = {p})"

text \<open>The state after the first object has been made from the initial state.\<close>

definition after_first :: "('a, 'f) class_decl \<Rightarrow> 'a \<Rightarrow> 'f state" where
  "after_first T args = \<lparr>heap = [0 \<mapsto> ctor T args], next_addr = 1, instance_ptr = Some 0\<rparr>"

section \<open>Properties\<close>

subsection \<open>The trait\<close>

lemma has_MainCtor_iff: "has_MainCtor T \<longleftrightarrow> flag_decl T = Some CBool"
  by (auto simp: has_MainCtor_def has_MainCtor_default_def IMainCtor_def has_MainCtor2_def
      has_MainCtor_select_def split: option.splits)

subsection \<open>The destructor\<close>

text \<open>
  A call of the destructor that returns started with a null static pointer: with any other
  pointer the destructor first calls itself in the same state.
\<close>

lemma dtor_returns_null:
  assumes "SingletonCRTP_dtor this s = Some s'"
  shows "instance_ptr s = None"
proof (rule SingletonCRTP_dtor.raw_induct
    [where P = "\<lambda>this s s'. instance_ptr s = None", OF _ assms])
  fix f :: "addr \<Rightarrow> 'a state \<Rightarrow> 'a state option" and this s y
  assume IH: "\<And>q t y. f q t = Some y \<Longrightarrow> instance_ptr t = None"
    and eq: "(case instance_ptr s of
               None \<Rightarrow> Some (s\<lparr>instance_ptr := None\<rparr>)
             | Some p \<Rightarrow> f p s \<bind>
                 (\<lambda>s'. Some (s'\<lparr>heap := (heap s')(p := None), instance_ptr := None\<rparr>))) = Some y"
  show "instance_ptr s = None"
  proof (cases "instance_ptr s")
    case None
    then show ?thesis .
  next
    case (Some p)
    with eq obtain z where "f p s = Some z"
      by (auto simp: bind_eq_Some_conv)
    then show ?thesis by (rule IH)
  qed
qed

lemma dtor_diverges: "instance_ptr s \<noteq> None \<Longrightarrow> SingletonCRTP_dtor this s = None"
  using dtor_returns_null [of this s] by (cases "SingletonCRTP_dtor this s") auto

lemma destroy_no_state: "store_inv s \<Longrightarrow> destroy p s \<noteq> Some (Inr s')"
  by (auto simp: destroy_def store_inv_def dtor_diverges split: option.splits)

lemma destroy_live_diverges: "store_inv s \<Longrightarrow> p \<in> dom (heap s) \<Longrightarrow> destroy p s = None"
  by (auto simp: destroy_def store_inv_def dtor_diverges split: option.splits)

subsection \<open>Creation\<close>

lemma create_if_absent_present: "instance_ptr s \<noteq> None \<Longrightarrow> create_if_absent T args s = s"
  by (auto simp: create_if_absent_def)

lemma create_if_absent_absent:
  "instance_ptr s = None \<Longrightarrow>
   create_if_absent T args s =
     s\<lparr>next_addr := Suc (next_addr s), instance_ptr := Some (next_addr s),
       heap := (heap s)(next_addr s \<mapsto> ctor T args)\<rparr>"
  by (simp add: create_if_absent_def new_Type_def SingletonCRTP_ctor_def Let_def)

lemma CreateSingleton_Inr:
  "CreateSingleton T args s = Inr (p, s') \<Longrightarrow>
   s' = create_if_absent T args s \<and> instance_ptr s' = Some p \<and>
   CheckIsMainCtorCalled T (heap s') (Some p) = Inr True"
  by (auto simp: CreateSingleton_def Let_def split: sum.splits if_splits option.splits)

lemma CreateSingleton_init_WithMainCtor:
  "CreateSingleton WithMainCtor (Suc n) init = Inr (0, after_first WithMainCtor (Suc n))"
  by (simp add: CreateSingleton_def create_if_absent_def new_Type_def SingletonCRTP_ctor_def
      Let_def init_def after_first_def CheckIsMainCtorCalled_def
      CheckIsMainCtorCalled_template_def has_MainCtor_iff WithMainCtor_def IMainCtor_def)

lemma CreateSingleton_init_Plain:
  "CreateSingleton Plain n init = Inr (0, after_first Plain n)"
  by (simp add: CreateSingleton_def create_if_absent_def new_Type_def SingletonCRTP_ctor_def
      Let_def init_def after_first_def CheckIsMainCtorCalled_def
      CheckIsMainCtorCalled_ellipsis_def has_MainCtor_iff Plain_def)

subsection \<open>Runs\<close>

lemma store_inv_init: "store_inv init"
  by (simp add: store_inv_def init_def)

lemma step_store_inv: "store_inv s \<Longrightarrow> step T x s = Some (Inr s') \<Longrightarrow> store_inv s'"
  by (cases x)
    (auto simp: store_inv_def CreateSingleton_def create_if_absent_def new_Type_def
      SingletonCRTP_ctor_def GetInstance_def Let_def destroy_no_state less_Suc_eq
      split: option.splits sum.splits if_splits prod.splits)

lemma exec_store_inv: "store_inv s \<Longrightarrow> exec T xs s = Some (Inr s') \<Longrightarrow> store_inv s'"
proof (induction xs arbitrary: s)
  case Nil
  then show ?case by simp
next
  case (Cons x xs)
  then show ?case
    by (auto split: option.splits sum.splits dest: step_store_inv)
qed

lemma exec_append:
  "exec T (xs @ ys) s =
     (case exec T xs s of
        None \<Rightarrow> None
      | Some (Inl e) \<Rightarrow> Some (Inl e)
      | Some (Inr s') \<Rightarrow> exec T ys s')"
  by (induction xs arbitrary: s) (auto split: option.splits sum.splits)

lemma step_member_fixed:
  "member_op x \<Longrightarrow> instance_ptr s = Some p \<Longrightarrow> step T x s = Some (Inr s') \<Longrightarrow> s' = s"
  by (cases x)
    (auto simp: CreateSingleton_def create_if_absent_def GetInstance_def Let_def
      split: sum.splits if_splits option.splits)

lemma step_member_not_Create:
  "member_op x \<Longrightarrow> \<not> is_Create x \<Longrightarrow> step T x s = Some (Inr s') \<Longrightarrow> s' = s"
  by (cases x) (auto simp: GetInstance_def split: sum.splits if_splits)

lemma step_member_single:
  "member_op x \<Longrightarrow> single_inv s \<Longrightarrow> step T x s = Some (Inr s') \<Longrightarrow> single_inv s'"
proof (cases "instance_ptr s")
  case None
  assume m: "member_op x" and i: "single_inv s" and st: "step T x s = Some (Inr s')"
  show ?thesis
  proof (cases "is_Create x")
    case True
    then obtain args where "x = Create args" by (cases x) auto
    with st None i show ?thesis
      by (auto simp: CreateSingleton_def create_if_absent_absent single_inv_def Let_def
          split: sum.splits if_splits option.splits)
  next
    case False
    have "s' = s" using m False st by (rule step_member_not_Create)
    with i show ?thesis by simp
  qed
next
  case (Some p)
  assume "member_op x" and i: "single_inv s" and "step T x s = Some (Inr s')"
  with Some have "s' = s" by (auto dest: step_member_fixed)
  with i show ?thesis by simp
qed

lemma exec_member_single:
  "\<forall>x \<in> set xs. member_op x \<Longrightarrow> single_inv s \<Longrightarrow> exec T xs s = Some (Inr s') \<Longrightarrow>
   single_inv s'"
proof (induction xs arbitrary: s)
  case Nil
  then show ?case by simp
next
  case (Cons x xs)
  then show ?case
    by (auto split: option.splits sum.splits dest: step_member_single)
qed

lemma exec_member_not_Create:
  "\<forall>x \<in> set xs. member_op x \<and> \<not> is_Create x \<Longrightarrow> exec T xs s = Some (Inr s') \<Longrightarrow> s' = s"
proof (induction xs arbitrary: s)
  case Nil
  then show ?case by simp
next
  case (Cons x xs)
  then show ?case
    by (auto split: option.splits sum.splits dest: step_member_not_Create)
qed

lemma single_inv_card: "single_inv s \<Longrightarrow> card (dom (heap s)) \<le> 1"
  by (auto simp: single_inv_def split: option.splits)

section \<open>The claims\<close>

subsection \<open>C2: what the trait detects\<close>

text \<open>
  C2: \<^verbatim>\<open>has_MainCtor<T>::value\<close> is to be true for every type that exposes the attribute
  \<^verbatim>\<open>IsMainCtorCalled\<close> and false for every type that does not; the header documents the
  trait as a check "whether type T has a variable named IsMainCtorCalled". The code does
  not do this at the class \<open>ConstFlag\<close>: it has the variable, declared \<^verbatim>\<open>const bool\<close>, and
  the trait is false, because the specialisation is the one for \<^verbatim>\<open>const bool\<close> and the
  trait is asked at the default \<^verbatim>\<open>bool\<close>.
\<close>

theorem has_MainCtor_misses_const_flag:
  "flag_decl ConstFlag = Some (CConst CBool) \<and> \<not> has_MainCtor ConstFlag"
  by (simp add: has_MainCtor_iff ConstFlag_def)

text \<open>
  What the trait computes: \<^verbatim>\<open>has_MainCtor<T>::value\<close> is true exactly when \<open>T\<close> exposes a
  data member \<^verbatim>\<open>IsMainCtorCalled\<close> whose declared type is the declared type of
  \<^verbatim>\<open>IMainCtor::IsMainCtorCalled\<close>, which is \<^verbatim>\<open>bool\<close>; it is false for a type without the
  member and for a type that declares it with another type.
\<close>

theorem has_MainCtor_detects_IMainCtor_type:
  "has_MainCtor T = (flag_decl T = flag_decl IMainCtor) \<and> flag_decl IMainCtor = Some CBool"
  by (simp add: has_MainCtor_iff) (simp add: IMainCtor_def)

text \<open>The theorem at a class that inherits the flag and at a class without a flag.\<close>

theorem has_MainCtor_detects_IMainCtor_type_witness:
  "has_MainCtor WithMainCtor \<and> \<not> has_MainCtor Plain"
  using has_MainCtor_detects_IMainCtor_type [of WithMainCtor]
    has_MainCtor_detects_IMainCtor_type [of Plain]
  by (simp add: WithMainCtor_def Plain_def)

subsection \<open>C6: what the completion check returns\<close>

text \<open>
  C6: \<^verbatim>\<open>CheckIsMainCtorCalled(t)\<close> is to return \<^verbatim>\<open>t->IsMainCtorCalled\<close> for every pointer
  to a type that declares the flag, and true for every other argument. The code does not
  do this at an object of \<open>ConstFlag\<close> whose flag is false: the trait being false for the
  class, the template overload is disabled, and the ellipsis overload answers true.
\<close>

theorem CheckIsMainCtorCalled_const_flag_true:
  "flag_decl ConstFlag = Some (CConst CBool) \<and>
   IsMainCtorCalled (ctor ConstFlag 0) = False \<and>
   CheckIsMainCtorCalled ConstFlag [0 \<mapsto> ctor ConstFlag 0] (Some 0) = Inr True"
  by (simp add: CheckIsMainCtorCalled_def CheckIsMainCtorCalled_ellipsis_def has_MainCtor_iff
      ConstFlag_def)

text \<open>
  What the check computes: for every pointer \<open>t\<close> to a living object of a type whose member
  \<^verbatim>\<open>IsMainCtorCalled\<close> is declared \<^verbatim>\<open>bool\<close>, \<^verbatim>\<open>CheckIsMainCtorCalled(t)\<close> returns the value
  of \<^verbatim>\<open>t->IsMainCtorCalled\<close>; for every argument of any other type (no such member, or one
  declared with another type) it returns true, whatever the argument.
\<close>

theorem CheckIsMainCtorCalled_reads_bool_flag:
  "(flag_decl T = Some CBool \<longrightarrow> h p = Some ob \<longrightarrow>
      CheckIsMainCtorCalled T h (Some p) = Inr (IsMainCtorCalled ob)) \<and>
   (flag_decl T \<noteq> Some CBool \<longrightarrow> CheckIsMainCtorCalled T h t = Inr True)"
  by (simp add: CheckIsMainCtorCalled_def CheckIsMainCtorCalled_template_def
      CheckIsMainCtorCalled_ellipsis_def has_MainCtor_iff)

text \<open>
  The theorem at an object whose flag is unset, at one whose flag is set, and at an object
  of a class without the flag.
\<close>

theorem CheckIsMainCtorCalled_reads_bool_flag_witness:
  "CheckIsMainCtorCalled WithMainCtor [0 \<mapsto> ctor WithMainCtor 0] (Some 0) = Inr False \<and>
   CheckIsMainCtorCalled WithMainCtor [0 \<mapsto> ctor WithMainCtor 1] (Some 0) = Inr True \<and>
   CheckIsMainCtorCalled Plain [0 \<mapsto> ctor Plain 0] (Some 0) = Inr True"
  using
    CheckIsMainCtorCalled_reads_bool_flag
      [of WithMainCtor "[0 \<mapsto> ctor WithMainCtor 0]" 0 "ctor WithMainCtor 0"]
    CheckIsMainCtorCalled_reads_bool_flag
      [of WithMainCtor "[0 \<mapsto> ctor WithMainCtor 1]" 0 "ctor WithMainCtor 1"]
    CheckIsMainCtorCalled_reads_bool_flag
      [where T = Plain and h = "[0 \<mapsto> ctor Plain 0]" and t = "Some 0"]
  by (simp add: WithMainCtor_def IMainCtor_def Plain_def)

subsection \<open>C1: the assertion of \<^verbatim>\<open>CreateSingleton\<close>\<close>

text \<open>
  C1: for every type that declares the flag, \<^verbatim>\<open>CreateSingleton\<close> is to fail its assertion
  exactly when the flag of the instance is false. The code does not do this at
  \<open>ConstFlag\<close>: the class declares the flag, the constructor called with \<open>0\<close> leaves it
  false, and \<^verbatim>\<open>CreateSingleton\<close> returns the instance, the trait being false for the
  class.
\<close>

theorem CreateSingleton_const_flag_unchecked:
  "flag_decl ConstFlag = Some (CConst CBool) \<and>
   IsMainCtorCalled (ctor ConstFlag 0) = False \<and>
   CreateSingleton ConstFlag 0 init = Inr (0, after_first ConstFlag 0)"
  by (simp add: CreateSingleton_def create_if_absent_def new_Type_def SingletonCRTP_ctor_def
      Let_def init_def after_first_def CheckIsMainCtorCalled_def
      CheckIsMainCtorCalled_ellipsis_def has_MainCtor_iff ConstFlag_def)

text \<open>
  Where the assertion works: for every type \<open>T\<close> whose member \<^verbatim>\<open>IsMainCtorCalled\<close> is
  declared \<^verbatim>\<open>bool\<close>,
  as \<^verbatim>\<open>IMainCtor\<close> declares it, and every state in which the static pointer is null or
  points to a living object, a call of \<^verbatim>\<open>CreateSingleton\<close> fails its assertion if and only
  if the flag of the instance (the one the call has just made when the pointer was null,
  the one that existed otherwise) is false; when the flag is true the call returns the
  instance.
\<close>

theorem CreateSingleton_asserts_iff_bool_flag_unset:
  assumes "flag_decl T = Some CBool" and "instance_live s"
  shows "\<exists>p ob. instance_ptr (create_if_absent T args s) = Some p \<and>
           heap (create_if_absent T args s) p = Some ob \<and>
           (instance_ptr s = None \<longrightarrow> ob = ctor T args) \<and>
           (instance_ptr s \<noteq> None \<longrightarrow> create_if_absent T args s = s) \<and>
           (CreateSingleton T args s = Inl AssertionFailed \<longleftrightarrow> \<not> IsMainCtorCalled ob) \<and>
           (IsMainCtorCalled ob \<longrightarrow>
              CreateSingleton T args s = Inr (p, create_if_absent T args s))"
proof (cases "instance_ptr s")
  case None
  with assms show ?thesis
    by (simp add: create_if_absent_absent CreateSingleton_def CheckIsMainCtorCalled_def
        CheckIsMainCtorCalled_template_def has_MainCtor_iff Let_def)
next
  case (Some p)
  with assms obtain ob where "heap s p = Some ob"
    by (auto simp: instance_live_def)
  with Some assms show ?thesis
    by (simp add: create_if_absent_present CreateSingleton_def CheckIsMainCtorCalled_def
        CheckIsMainCtorCalled_template_def has_MainCtor_iff Let_def)
qed

text \<open>
  The theorem at \<open>WithMainCtor\<close> in the initial state: the constructor that leaves the
  flag unset trips the assertion, the main constructor does not.
\<close>

theorem CreateSingleton_asserts_iff_bool_flag_unset_witness:
  "flag_decl WithMainCtor = Some CBool \<and> instance_live (init :: nat state) \<and>
   CreateSingleton WithMainCtor 0 init = Inl AssertionFailed \<and>
   CreateSingleton WithMainCtor 1 init = Inr (0, after_first WithMainCtor 1)"
proof -
  have h1: "flag_decl WithMainCtor = Some CBool"
    by (simp add: WithMainCtor_def IMainCtor_def)
  have h2: "instance_live (init :: nat state)"
    by (simp add: instance_live_def init_def)
  have c: "create_if_absent WithMainCtor n (init :: nat state) = after_first WithMainCtor n" for n
    by (simp add: create_if_absent_absent init_def after_first_def)
  have f: "IsMainCtorCalled (ctor WithMainCtor n) = (0 < n)" for n
    by (simp add: WithMainCtor_def)
  from CreateSingleton_asserts_iff_bool_flag_unset [OF h1 h2, of 0]
  have "CreateSingleton WithMainCtor 0 init = Inl AssertionFailed"
    unfolding c by (auto simp: after_first_def f)
  moreover
  from CreateSingleton_asserts_iff_bool_flag_unset [OF h1 h2, of 1]
  have "CreateSingleton WithMainCtor 1 init = Inr (0, after_first WithMainCtor 1)"
    unfolding c by (auto simp: after_first_def f)
  ultimately show ?thesis
    using h1 h2 by simp
qed

subsection \<open>C3: the assertion of \<^verbatim>\<open>GetInstance\<close>\<close>

text \<open>
  C3: in every state that a run reaches from the start of the program, \<^verbatim>\<open>GetInstance\<close>
  fails its assertion if and only if the static pointer is null, which is the case if and
  only if no object of \<open>T\<close> lives; when the pointer is not null, it points to a living
  object and \<^verbatim>\<open>GetInstance\<close> returns it and leaves the state as it was.
\<close>

theorem GetInstance_asserts_iff_no_instance:
  assumes "exec T xs init = Some (Inr s)"
  shows "(GetInstance s = Inl AssertionFailed \<longleftrightarrow> instance_ptr s = None) \<and>
         (instance_ptr s = None \<longleftrightarrow> dom (heap s) = {}) \<and>
         (\<forall>p. instance_ptr s = Some p \<longrightarrow>
            p \<in> dom (heap s) \<and> GetInstance s = Inr (Some p, s))"
proof -
  have "store_inv s"
    using store_inv_init assms by (rule exec_store_inv)
  then show ?thesis
    by (auto simp: store_inv_def GetInstance_def split: option.splits)
qed

text \<open>The theorem before any creation and after one call of \<^verbatim>\<open>CreateSingleton\<close>.\<close>

theorem GetInstance_asserts_iff_no_instance_witness:
  "exec WithMainCtor [] init = Some (Inr init) \<and>
   GetInstance (init :: nat state) = Inl AssertionFailed \<and>
   exec WithMainCtor [Create 1] init = Some (Inr (after_first WithMainCtor 1)) \<and>
   GetInstance (after_first WithMainCtor 1) = Inr (Some 0, after_first WithMainCtor 1)"
proof -
  have h0: "exec WithMainCtor [] init = Some (Inr init)"
    by simp
  have h1: "exec WithMainCtor [Create 1] init = Some (Inr (after_first WithMainCtor 1))"
    using CreateSingleton_init_WithMainCtor [of 0] by simp
  show ?thesis
    using h0 h1 GetInstance_asserts_iff_no_instance [OF h0]
      GetInstance_asserts_iff_no_instance [OF h1]
    by (simp add: init_def after_first_def)
qed

subsection \<open>C5: the first call wins\<close>

text \<open>
  C5: when a call of \<^verbatim>\<open>CreateSingleton\<close> has returned an instance, the next call, with any
  arguments, returns the same instance and leaves the state as it was: it constructs
  nothing.
\<close>

theorem CreateSingleton_first_call_wins:
  assumes "CreateSingleton T a s = Inr (p, s1)"
  shows "CreateSingleton T b s1 = Inr (p, s1)"
proof -
  from assms have ptr: "instance_ptr s1 = Some p"
    and chk: "CheckIsMainCtorCalled T (heap s1) (Some p) = Inr True"
    by (auto dest: CreateSingleton_Inr)
  from ptr have "create_if_absent T b s1 = s1"
    by (simp add: create_if_absent_present)
  with ptr chk show ?thesis
    by (simp add: CreateSingleton_def)
qed

text \<open>The theorem at two calls with the arguments \<open>1\<close> and \<open>2\<close>.\<close>

theorem CreateSingleton_first_call_wins_witness:
  "CreateSingleton WithMainCtor 1 init = Inr (0, after_first WithMainCtor 1) \<and>
   CreateSingleton WithMainCtor 2 (after_first WithMainCtor 1) =
     Inr (0, after_first WithMainCtor 1) \<and>
   heap (after_first WithMainCtor 1) 0 = Some (ctor WithMainCtor 1)"
proof -
  have h: "CreateSingleton WithMainCtor 1 init = Inr (0, after_first WithMainCtor 1)"
    using CreateSingleton_init_WithMainCtor [of 0] by simp
  show ?thesis
    using h CreateSingleton_first_call_wins [OF h, of 2]
    by (simp add: after_first_def)
qed

subsection \<open>C10: the dereference operators\<close>

text \<open>
  C10: when the static pointer is not null, \<^verbatim>\<open>operator*\<close> and \<^verbatim>\<open>operator->\<close>, in both
  versions, give the object it points to, which is the one \<^verbatim>\<open>GetInstance\<close> returns; when
  it is null they dereference it unguarded, where \<^verbatim>\<open>GetInstance\<close> fails its assertion.
\<close>

theorem dereference_unguarded:
  "(instance_ptr s = Some p \<longrightarrow>
      op_star s = Inr p \<and> op_star_const s = Inr p \<and>
      op_arrow s = Inr (Some p) \<and> op_arrow_const s = Inr (Some p) \<and>
      GetInstance s = Inr (Some p, s)) \<and>
   (instance_ptr s = None \<longrightarrow>
      op_star s = Inl UndefinedBehaviour \<and> op_star_const s = Inl UndefinedBehaviour \<and>
      op_arrow s = Inl UndefinedBehaviour \<and> op_arrow_const s = Inl UndefinedBehaviour \<and>
      GetInstance s = Inl AssertionFailed)"
  by (simp add: op_star_def op_star_const_def op_arrow_def op_arrow_const_def GetInstance_def)

text \<open>The theorem with one object and in the initial state.\<close>

theorem dereference_unguarded_witness:
  "op_star (after_first Plain 1) = Inr 0 \<and>
   op_arrow (after_first Plain 1) = Inr (Some 0) \<and>
   GetInstance (after_first Plain 1) = Inr (Some 0, after_first Plain 1) \<and>
   op_star (init :: nat state) = Inl UndefinedBehaviour \<and>
   GetInstance (init :: nat state) = Inl AssertionFailed"
  using dereference_unguarded [of "after_first Plain 1" 0]
    dereference_unguarded [of "init :: nat state" 0]
  by (simp add: after_first_def init_def)

subsection \<open>C9: construction outside \<^verbatim>\<open>CreateSingleton\<close>\<close>

text \<open>
  C9 says that after any construction a later \<^verbatim>\<open>CreateSingleton\<close> returns the constructed
  object. An object of \<open>WithMainCtor\<close> made by the constructor that leaves the flag unset
  becomes the instance, and the call of \<^verbatim>\<open>CreateSingleton\<close> that follows fails its
  assertion.
\<close>

theorem CreateSingleton_after_construction_asserts:
  "instance_ptr (snd (new_Type WithMainCtor 0 init)) = Some 0 \<and>
   CreateSingleton WithMainCtor 1 (snd (new_Type WithMainCtor 0 init)) = Inl AssertionFailed"
  by (simp add: new_Type_def SingletonCRTP_ctor_def Let_def create_if_absent_def init_def
      CreateSingleton_def CheckIsMainCtorCalled_def CheckIsMainCtorCalled_template_def
      has_MainCtor_iff WithMainCtor_def IMainCtor_def)

text \<open>
  C9, amended: every construction of an object of \<open>T\<close> sets the static pointer to the new
  object, whatever the pointer held before; a call of \<^verbatim>\<open>CreateSingleton\<close> that follows
  allocates nothing, fails its assertion if and only if \<^verbatim>\<open>has_MainCtor<T>::value\<close> holds
  and the constructor left the flag unset, and otherwise returns the constructed object
  in an unchanged state.
\<close>

theorem construction_sets_instance:
  assumes "new_Type T args s = (p, s')"
  shows "instance_ptr s' = Some p \<and> p = next_addr s \<and> heap s' p = Some (ctor T args) \<and>
         create_if_absent T b s' = s' \<and>
         (CreateSingleton T b s' = Inl AssertionFailed \<longleftrightarrow>
            has_MainCtor T \<and> \<not> IsMainCtorCalled (ctor T args)) \<and>
         (CreateSingleton T b s' \<noteq> Inl AssertionFailed \<longrightarrow>
            CreateSingleton T b s' = Inr (p, s'))"
  using assms
  by (auto simp: new_Type_def SingletonCRTP_ctor_def Let_def create_if_absent_def
      CreateSingleton_def CheckIsMainCtorCalled_def CheckIsMainCtorCalled_template_def
      CheckIsMainCtorCalled_ellipsis_def split: if_splits)

text \<open>
  The theorem at a construction that replaces an existing instance: the pointer moves
  from the first object to the second, and \<^verbatim>\<open>CreateSingleton\<close> then returns the second.
\<close>

theorem construction_sets_instance_witness:
  "instance_ptr (after_first Plain 1) = Some 0 \<and>
   new_Type Plain 2 (after_first Plain 1) =
     (1, \<lparr>heap = [0 \<mapsto> ctor Plain 1, 1 \<mapsto> ctor Plain 2], next_addr = 2,
          instance_ptr = Some 1\<rparr>) \<and>
   CreateSingleton Plain 3
       \<lparr>heap = [0 \<mapsto> ctor Plain 1, 1 \<mapsto> ctor Plain 2], next_addr = 2, instance_ptr = Some 1\<rparr> =
     Inr (1, \<lparr>heap = [0 \<mapsto> ctor Plain 1, 1 \<mapsto> ctor Plain 2], next_addr = 2,
              instance_ptr = Some 1\<rparr>)"
proof -
  have h: "new_Type Plain 2 (after_first Plain 1) =
     (1, \<lparr>heap = [0 \<mapsto> ctor Plain 1, 1 \<mapsto> ctor Plain 2], next_addr = 2,
          instance_ptr = Some 1\<rparr>)"
    by (simp add: new_Type_def SingletonCRTP_ctor_def Let_def after_first_def)
  show ?thesis
    using h construction_sets_instance [OF h, of 3]
    by (simp add: has_MainCtor_iff Plain_def after_first_def)
qed

subsection \<open>C4: at most one instance\<close>

text \<open>
  C4 says that at most one object of \<open>T\<close> lives at any time and that the instance is never
  replaced while it lives. After \<^verbatim>\<open>CreateSingleton\<close> has made the instance at address
  \<open>0\<close>, constructing a second object of \<open>T\<close> runs the base class constructor, which moves
  the static pointer to address \<open>1\<close>; both objects live.
\<close>

theorem direct_construction_second_instance:
  "exec Plain [Create 1] init = Some (Inr (after_first Plain 1)) \<and>
   instance_ptr (after_first Plain 1) = Some 0 \<and>
   exec Plain [Create 1, Construct 2] init =
     Some (Inr \<lparr>heap = [0 \<mapsto> ctor Plain 1, 1 \<mapsto> ctor Plain 2], next_addr = 2,
                instance_ptr = Some 1\<rparr>) \<and>
   dom [0 \<mapsto> ctor Plain 1, (1::nat) \<mapsto> ctor Plain 2] = {0, 1}"
  by (auto simp: CreateSingleton_def create_if_absent_def new_Type_def SingletonCRTP_ctor_def
      Let_def init_def after_first_def CheckIsMainCtorCalled_def
      CheckIsMainCtorCalled_ellipsis_def has_MainCtor_iff Plain_def)

text \<open>
  C4, amended: in every run from the start of the program that uses only the public
  members of \<^verbatim>\<open>SingletonCRTP<T>\<close> (\<^verbatim>\<open>CreateSingleton\<close>, \<^verbatim>\<open>GetInstance\<close>, \<^verbatim>\<open>operator*\<close>,
  \<^verbatim>\<open>operator->\<close>), at most one object of \<open>T\<close> lives at any time, and it is the one the
  static pointer points to; the pointer is null and no object exists as long as
  \<^verbatim>\<open>CreateSingleton\<close> has not been called; and once the pointer is not null, none of these
  members changes the state. Constructions of \<open>T\<close> outside \<^verbatim>\<open>CreateSingleton\<close> are not
  covered.
\<close>

theorem member_ops_keep_single_instance:
  assumes "\<forall>x \<in> set xs. member_op x" and "exec T xs init = Some (Inr s)"
  shows "card (dom (heap s)) \<le> 1 \<and>
         (case instance_ptr s of None \<Rightarrow> heap s = Map.empty | Some p \<Rightarrow> dom (heap s) = {p}) \<and>
         ((\<forall>x \<in> set xs. \<not> is_Create x) \<longrightarrow> s = init) \<and>
         (\<forall>x p s'. member_op x \<longrightarrow> instance_ptr s = Some p \<longrightarrow>
            step T x s = Some (Inr s') \<longrightarrow> s' = s)"
proof -
  have "single_inv (init :: 'b state)"
    by (simp add: single_inv_def init_def)
  then have inv: "single_inv s"
    using assms exec_member_single [of xs init T s] by blast
  have lazy: "s = init" if "\<forall>x \<in> set xs. \<not> is_Create x"
    using that assms exec_member_not_Create [of xs T init s] by blast
  from inv have "case instance_ptr s of None \<Rightarrow> heap s = Map.empty | Some p \<Rightarrow> dom (heap s) = {p}"
    by (simp add: single_inv_def)
  with inv lazy show ?thesis
    by (auto dest: single_inv_card step_member_fixed)
qed

text \<open>The theorem at a run with two calls of \<^verbatim>\<open>CreateSingleton\<close>.\<close>

theorem member_ops_keep_single_instance_witness:
  "member_op (Create (1::nat)) \<and> member_op (Get :: nat operation) \<and>
   member_op (Star :: nat operation) \<and> member_op (Create (2::nat)) \<and>
   exec Plain [Create 1, Get, Star, Create 2] init = Some (Inr (after_first Plain 1)) \<and>
   card (dom (heap (after_first Plain 1))) \<le> 1"
proof -
  have h1: "\<forall>x \<in> set [Create 1, Get, Star, Create (2::nat)]. member_op x"
    by simp
  have c2: "CreateSingleton Plain 2 (after_first Plain 1) = Inr (0, after_first Plain 1)"
    by (simp add: CreateSingleton_def create_if_absent_def after_first_def
        CheckIsMainCtorCalled_def CheckIsMainCtorCalled_ellipsis_def has_MainCtor_iff Plain_def)
  have h2: "exec Plain [Create 1, Get, Star, Create 2] init = Some (Inr (after_first Plain 1))"
    using CreateSingleton_init_Plain [of 1] c2
    by (simp add: GetInstance_def op_star_def after_first_def)
  show ?thesis
    using h1 h2 member_ops_keep_single_instance [OF h1 h2] by simp
qed

subsection \<open>C8: no teardown followed by a new creation\<close>

text \<open>
  C8: in every run in which a living object of \<open>T\<close> is destroyed, the destruction does not
  return, so that nothing that follows it in the program is executed: no later operation
  initialises the singleton again or creates a new instance. The destructor deletes the
  object the static pointer points to, which runs the destructor of that object, and so on
  without end, and the pointer is not null while an object lives.
\<close>

theorem destruction_never_returns:
  assumes "exec T xs init = Some (Inr s)" and "p \<in> dom (heap s)"
  shows "exec T (xs @ Destroy p # ys) init = None"
proof -
  have "store_inv s"
    using store_inv_init assms(1) by (rule exec_store_inv)
  then have "destroy p s = None"
    using assms(2) by (rule destroy_live_diverges)
  with assms(1) show ?thesis
    by (simp add: exec_append)
qed

text \<open>The theorem at a run that creates the instance, destroys it and asks for a new one.\<close>

theorem destruction_never_returns_witness:
  "exec Plain [Create 1] init = Some (Inr (after_first Plain 1)) \<and>
   0 \<in> dom (heap (after_first Plain 1)) \<and>
   exec Plain [Create 1, Destroy 0, Create 2] init = None"
proof -
  have h1: "exec Plain [Create 1] init = Some (Inr (after_first Plain 1))"
    using CreateSingleton_init_Plain [of 1] by simp
  have h2: "0 \<in> dom (heap (after_first Plain (1::nat)))"
    by (simp add: after_first_def)
  show ?thesis
    using h1 h2 destruction_never_returns [OF h1 h2, of "[Create 2]"] by simp
qed

end
